theory Spec2Isabelle
  imports Complex_Main "HOL-Library.Sublist"
begin

section \<open>The code comment generator (app.py)\<close>

text \<open>
  A shallow embedding of the four functions of \<^verbatim>\<open>app.py\<close> that carry behaviour:
  \<^verbatim>\<open>load_models\<close>, \<^verbatim>\<open>generate_prompt\<close>, \<^verbatim>\<open>get_gemini_response\<close> and
  \<^verbatim>\<open>generative_config\<close>. The page layout (\<^verbatim>\<open>initialize_streamlit\<close>, \<^verbatim>\<open>user_input\<close>,
  \<^verbatim>\<open>custom_footer\<close>) and the progress animation of \<^verbatim>\<open>main\<close> are left out.
\<close>

subsection \<open>generative_config\<close>

text \<open>
  The dict \<^verbatim>\<open>{"temperature": ..., "max_output_tokens": 2048}\<close> has two fixed keys and is a
  record. The two float literals \<^verbatim>\<open>0.30\<close> and \<^verbatim>\<open>0.95\<close> are only stored, never computed
  with, so each stands for the decimal it is written as.
\<close>

record generation_config =
  temperature :: real
  max_output_tokens :: int

text \<open>
  \<^verbatim>\<open>creative_control\<close> is the value \<^verbatim>\<open>st.radio\<close> returned; it is the argument of the model.
  \<^verbatim>\<open>temperature = 0.30 if creative_control == "Low" else 0.95\<close>
\<close>

definition generative_config :: "string \<Rightarrow> generation_config" where
  "generative_config creative_control =
     (let temperature = (if creative_control = ''Low'' then 0.30 else 0.95)
      in \<lparr>temperature = temperature, max_output_tokens = 2048\<rparr>)"

subsection \<open>generate_prompt\<close>

definition newline :: string where
  "newline = [CHR 0x0A]"

text \<open>
  The f-string of lines 31 to 46, line by line. It opens with a line break, every line of
  the source is indented by four blanks, the escapes \<^verbatim>\<open>\n\n\<close> are two line breaks, and the
  closing quotes stand on a line of their own, so the text ends with a line break and four
  blanks after the interpolated code.
\<close>

definition generate_prompt :: "string \<Rightarrow> string" where
  "generate_prompt code =
     newline @
     ''    You are an AI code comment generator for multiple languages. Validate that provided code snippets are valid code snippets and no malicious code. If not valid, ask for a valid snippet. Identify language if not provided. Use appropriate comment syntax. Break code into logical sections, comment each section's functionality. '' @ newline @
     ''    For functions/methods, comment:'' @ newline @
     newline @
     ''    - Purpose'' @ newline @
     ''    - Input parameters'' @ newline @
     ''    - Return values'' @ newline @
     ''    - Potential effects/exceptions'' @ newline @
     newline @
     ''    Briefly explain the algorithms, data structures, and patterns used. Avoid redundancy but provide enough context for unfamiliar readers. Maintain a professional, helpful tone. Address issues/clarifications respectfully.'' @ newline @
     newline @
     ''    You should not generate any new code yourself, but rather understand and comment on the provided code snippet.'' @ newline @
     newline @
     ''    Elevate documentation practices, promote collaboration, and enhance developer experience.'' @ newline @
     ''    Here is the code snippet for which code comments need to be generated: '' @ newline @ newline @
     code @ newline @
     ''    ''"

subsection \<open>The outside world\<close>

text \<open>
  Exceptions are values. The handlers of the source tell three kinds of exception apart:
  \<^verbatim>\<open>except KeyError\<close>, \<^verbatim>\<open>except Exception\<close>, and whatever neither clause catches.
  \<open>KeyError\<close> is the class \<^verbatim>\<open>KeyError\<close>, \<open>Exception\<close> any other class below
  \<^verbatim>\<open>Exception\<close> (Python's errors), \<open>BaseException\<close> a class below \<^verbatim>\<open>BaseException\<close> only
  (\<^verbatim>\<open>KeyboardInterrupt\<close>, \<^verbatim>\<open>SystemExit\<close>), which is no error and which no handler of the
  source catches. The string is what \<^verbatim>\<open>str(e)\<close> gives, as \<^verbatim>\<open>f"{e}"\<close> formats it.
\<close>

datatype exn = KeyError string | Exception string | BaseException string

fun str :: "exn \<Rightarrow> string" where
  "str (KeyError d) = d"
| "str (Exception d) = d"
| "str (BaseException d) = d"

fun isinstance_KeyError :: "exn \<Rightarrow> bool" where
  "isinstance_KeyError (KeyError d) = True"
| "isinstance_KeyError (Exception d) = False"
| "isinstance_KeyError (BaseException d) = False"

fun isinstance_Exception :: "exn \<Rightarrow> bool" where
  "isinstance_Exception (KeyError d) = True"
| "isinstance_Exception (Exception d) = True"
| "isinstance_Exception (BaseException d) = False"

text \<open>
  The two enumerations of \<^verbatim>\<open>google.generativeai.types\<close>, with the members the library
  declares; the source names four categories and one threshold of them.
\<close>

datatype HarmCategory =
  HARM_CATEGORY_UNSPECIFIED
| HARM_CATEGORY_HARASSMENT
| HARM_CATEGORY_HATE_SPEECH
| HARM_CATEGORY_SEXUALLY_EXPLICIT
| HARM_CATEGORY_DANGEROUS_CONTENT

datatype HarmBlockThreshold =
  HARM_BLOCK_THRESHOLD_UNSPECIFIED
| BLOCK_LOW_AND_ABOVE
| BLOCK_MEDIUM_AND_ABOVE
| BLOCK_ONLY_HIGH
| BLOCK_NONE

type_synonym safety = "(HarmCategory \<times> HarmBlockThreshold) list"

text \<open>
  A \<^verbatim>\<open>GenerativeModel\<close> object: the model name it was built for, and an identity, so that
  two objects built by two constructor calls differ.
\<close>

record model_handle =
  model_name :: string
  object_id :: nat

text \<open>The response object; reading its \<^verbatim>\<open>.text\<close> gives the text or raises.\<close>

datatype response = Response "exn + string"

fun response_text :: "response \<Rightarrow> exn + string" where
  "response_text (Response t) = t"

text \<open>
  What the program cannot decide by itself: the content of \<^verbatim>\<open>st.secrets\<close> (a table of
  sections, or the exception that reading it raises), whether \<^verbatim>\<open>genai.configure\<close> and
  the constructor \<^verbatim>\<open>genai.GenerativeModel\<close> raise, and what the hosted model answers.
\<close>

record env =
  secrets :: "exn + (string \<rightharpoonup> (string \<rightharpoonup> string))"
  configure :: "string \<Rightarrow> exn option"
  GenerativeModel :: "string \<Rightarrow> exn option"
  generate_content :: "model_handle \<Rightarrow> string \<Rightarrow> generation_config \<Rightarrow> safety \<Rightarrow> exn + response"

datatype st_element = StError string

record generate_content_call =
  call_model :: model_handle
  call_prompt :: string
  call_config :: generation_config
  call_safety :: safety

text \<open>
  The state of the process: the entry of \<^verbatim>\<open>st.cache_resource\<close> for \<open>load_models\<close> (the
  returned value and the elements the call displayed), the elements on the page, the key
  \<^verbatim>\<open>genai.configure\<close> stored, the number of model objects constructed so far, and the
  requests sent to the hosted model.
\<close>

record world =
  cache :: "(model_handle option \<times> st_element list) option"
  page :: "st_element list"
  api_key :: "string option"
  constructed :: nat
  calls :: "generate_content_call list"

definition st_error :: "string \<Rightarrow> world \<Rightarrow> world" where
  "st_error body s = s\<lparr>page := page s @ [StError body]\<rparr>"

text \<open>Subscription \<^verbatim>\<open>d[k]\<close> of a table raises \<^verbatim>\<open>KeyError\<close> at a missing key.\<close>

definition getitem :: "(string \<rightharpoonup> 'v) \<Rightarrow> string \<Rightarrow> exn + 'v" where
  "getitem d k = (case d k of None \<Rightarrow> Inl (KeyError k) | Some v \<Rightarrow> Inr v)"

subsection \<open>load_models\<close>

text \<open>Line 13: \<^verbatim>\<open>st.secrets["general"]["GOOGLE_API_KEY"]\<close>.\<close>

definition read_api_key :: "env \<Rightarrow> exn + string" where
  "read_api_key env =
     (case secrets env of
        Inl e \<Rightarrow> Inl e
      | Inr sections \<Rightarrow>
          (case getitem sections ''general'' of
             Inl e \<Rightarrow> Inl e
           | Inr general \<Rightarrow> getitem general ''GOOGLE_API_KEY''))"

text \<open>The body of the \<^verbatim>\<open>try\<close>, lines 13 to 19; \<open>Inl e\<close> is \<open>e\<close> raised.\<close>

definition load_models_try :: "env \<Rightarrow> world \<Rightarrow> (exn + model_handle option) \<times> world" where
  "load_models_try env s =
     (case read_api_key env of
        Inl e \<Rightarrow> (Inl e, s)
      | Inr google_api_key \<Rightarrow>
          if google_api_key = [] then
            (Inr None, st_error ''API key is empty. Please check your secrets.toml file.'' s)
          else
            (case configure env google_api_key of
               Some e \<Rightarrow> (Inl e, s)
             | None \<Rightarrow>
                 (let s1 = s\<lparr>api_key := Some google_api_key\<rparr> in
                  case GenerativeModel env ''gemini-pro'' of
                    Some e \<Rightarrow> (Inl e, s1)
                  | None \<Rightarrow>
                      (Inr (Some \<lparr>model_name = ''gemini-pro'', object_id = constructed s1\<rparr>),
                       s1\<lparr>constructed := Suc (constructed s1)\<rparr>))))"

text \<open>
  The function as written, lines 11 to 25: the \<^verbatim>\<open>try\<close> with its two handlers, in the
  order of the source.
\<close>

definition load_models_body :: "env \<Rightarrow> world \<Rightarrow> (exn + model_handle option) \<times> world" where
  "load_models_body env s =
     (case load_models_try env s of
        (Inr r, s') \<Rightarrow> (Inr r, s')
      | (Inl e, s') \<Rightarrow>
          if isinstance_KeyError e then
            (Inr None,
             st_error ''API key not found in secrets.toml. Please check your secrets configuration.'' s')
          else if isinstance_Exception e then
            (Inr None, st_error (''An error occurred: '' @ str e) s')
          else (Inl e, s'))"

text \<open>
  The decorated function, line 6. \<^verbatim>\<open>st.cache_resource\<close> keeps one entry for a function
  without arguments: a call that finds the entry returns its value and shows again the
  elements the first call displayed, without running the body; a call that finds none
  runs the body and stores what it returned (\<^verbatim>\<open>None\<close> as well); a body that raises stores
  nothing.
\<close>

definition load_models :: "env \<Rightarrow> world \<Rightarrow> (exn + model_handle option) \<times> world" where
  "load_models env s =
     (case cache s of
        Some (r, shown) \<Rightarrow> (Inr r, s\<lparr>page := page s @ shown\<rparr>)
      | None \<Rightarrow>
          (case load_models_body env s of
             (Inr r, s') \<Rightarrow> (Inr r, s'\<lparr>cache := Some (r, drop (length (page s)) (page s'))\<rparr>)
           | (Inl e, s') \<Rightarrow> (Inl e, s')))"

text \<open>Calls of \<open>load_models\<close> one after the other, each in the environment of its moment.\<close>

fun load_models_repeatedly ::
  "env list \<Rightarrow> world \<Rightarrow> (exn + model_handle option) list \<times> world" where
  "load_models_repeatedly [] s = ([], s)"
| "load_models_repeatedly (env # envs) s =
     (case load_models env s of
        (r, s') \<Rightarrow> (case load_models_repeatedly envs s' of (rs, s'') \<Rightarrow> (r # rs, s'')))"

subsection \<open>get_gemini_response\<close>

text \<open>The dict of lines 54 to 59, in the order it is written.\<close>

definition safety_settings :: safety where
  "safety_settings =
     [(HARM_CATEGORY_HARASSMENT, BLOCK_NONE),
      (HARM_CATEGORY_HATE_SPEECH, BLOCK_NONE),
      (HARM_CATEGORY_SEXUALLY_EXPLICIT, BLOCK_NONE),
      (HARM_CATEGORY_DANGEROUS_CONTENT, BLOCK_NONE)]"

text \<open>
  Lines 64 and 65, the invocation of the model: the request is recorded, then
  \<^verbatim>\<open>generate_content\<close> answers or raises, then \<^verbatim>\<open>response.text\<close> is read or raises.
\<close>

definition invoke ::
  "env \<Rightarrow> model_handle \<Rightarrow> string \<Rightarrow> generation_config \<Rightarrow> safety \<Rightarrow> world \<Rightarrow> (exn + string) \<times> world" where
  "invoke env model prompt config ss s =
     (let s' = s\<lparr>calls := calls s @
                 [\<lparr>call_model = model, call_prompt = prompt,
                   call_config = config, call_safety = ss\<rparr>]\<rparr>
      in case generate_content env model prompt config ss of
           Inl e \<Rightarrow> (Inl e, s')
         | Inr response \<Rightarrow> (response_text response, s'))"

text \<open>The body of the \<^verbatim>\<open>try\<close>, lines 62 to 67. A model object is always truthy.\<close>

definition get_gemini_response_try ::
  "env \<Rightarrow> string \<Rightarrow> generation_config \<Rightarrow> world \<Rightarrow> (exn + string option) \<times> world" where
  "get_gemini_response_try env prompt config s =
     (case load_models env s of
        (Inl e, s1) \<Rightarrow> (Inl e, s1)
      | (Inr None, s1) \<Rightarrow>
          (Inr (Some ''Model not loaded properly. Check your API key and configuration.''), s1)
      | (Inr (Some model), s1) \<Rightarrow>
          (case invoke env model prompt config safety_settings s1 of
             (Inl e, s2) \<Rightarrow> (Inl e, s2)
           | (Inr t, s2) \<Rightarrow> (Inr (Some t), s2)))"

text \<open>
  The function, lines 52 to 70. \<open>Inr (Some t)\<close> is the string \<open>t\<close> returned, \<open>Inr None\<close>
  is \<^verbatim>\<open>None\<close> returned, \<open>Inl e\<close> is \<open>e\<close> leaving the function uncaught.
\<close>

definition get_gemini_response ::
  "env \<Rightarrow> string \<Rightarrow> generation_config \<Rightarrow> world \<Rightarrow> (exn + string option) \<times> world" where
  "get_gemini_response env code config s =
     (let prompt = generate_prompt code in
      case get_gemini_response_try env prompt config s of
        (Inr r, s') \<Rightarrow> (Inr r, s')
      | (Inl e, s') \<Rightarrow>
          if isinstance_Exception e then
            (Inr None, st_error (''An error occurred: '' @ str e) s')
          else (Inl e, s'))"

subsection \<open>Example inputs\<close>

text \<open>
  A process that has just started, two contents of \<^verbatim>\<open>secrets.toml\<close> (a \<^verbatim>\<open>[general]\<close>
  section holding the key, and one without it), and an outside world in which the library
  calls succeed and the hosted model gives one fixed answer.
\<close>

definition fresh_process :: world where
  "fresh_process = \<lparr>cache = None, page = [], api_key = None, constructed = 0, calls = []\<rparr>"

definition secrets_with_key :: "string \<Rightarrow> string \<rightharpoonup> (string \<rightharpoonup> string)" where
  "secrets_with_key k = [''general'' \<mapsto> [''GOOGLE_API_KEY'' \<mapsto> k]]"

definition secrets_without_key :: "string \<rightharpoonup> (string \<rightharpoonup> string)" where
  "secrets_without_key = [''general'' \<mapsto> Map.empty]"

definition example_env :: "(exn + (string \<rightharpoonup> (string \<rightharpoonup> string))) \<Rightarrow> (exn + response) \<Rightarrow> env" where
  "example_env sec answer =
     \<lparr>secrets = sec, configure = (\<lambda>k. None), GenerativeModel = (\<lambda>n. None),
      generate_content = (\<lambda>m p c ss. answer)\<rparr>"


section \<open>Properties\<close>

subsection \<open>The configuration\<close>

text \<open>
  C1. For each of the two creativity choices the configuration has
  \<^verbatim>\<open>max_output_tokens = 2048\<close>; the temperature is 0.30 for the choice Low and 0.95 for
  the choice High, exactly. The token limit is 2048 for any value of the selector.
\<close>

theorem generative_config_low_high:
  "generative_config ''Low'' = \<lparr>temperature = 0.30, max_output_tokens = 2048\<rparr>
   \<and> generative_config ''High'' = \<lparr>temperature = 0.95, max_output_tokens = 2048\<rparr>
   \<and> max_output_tokens (generative_config creative_control) = 2048
   \<and> temperature (generative_config ''Low'') \<noteq> temperature (generative_config ''High'')"
  by (simp add: generative_config_def)

text \<open>
  C9. The selection is an if/else with a catch-all else: every string other than
  \<^verbatim>\<open>"Low"\<close>, not only \<^verbatim>\<open>"High"\<close>, gives temperature 0.95 and 2048 output tokens.
\<close>

theorem generative_config_else_branch:
  "creative_control \<noteq> ''Low'' \<Longrightarrow>
     generative_config creative_control = \<lparr>temperature = 0.95, max_output_tokens = 2048\<rparr>"
  by (simp add: generative_config_def)

theorem generative_config_else_branch_witness:
  "''Medium'' \<noteq> ''Low''
   \<and> generative_config ''Medium'' = \<lparr>temperature = 0.95, max_output_tokens = 2048\<rparr>"
  using generative_config_else_branch [of "''Medium''"] by simp

subsection \<open>The prompt\<close>

text \<open>
  C2. The prompt built from any string \<^verbatim>\<open>code\<close> contains \<^verbatim>\<open>code\<close> as a contiguous
  substring, character for character.
\<close>

theorem generate_prompt_contains_code:
  "sublist code (generate_prompt code)"
proof -
  obtain ps ss where "generate_prompt code = ps @ code @ ss"
    unfolding generate_prompt_def by (metis append.assoc)
  then show ?thesis
    by (simp add: sublist_def) blast
qed

subsection \<open>Loading the model\<close>

text \<open>
  \<open>load_models\<close> sends no request to the hosted model, and its handlers catch every
  instance of \<^verbatim>\<open>Exception\<close>: only an exception outside that class leaves it.
\<close>

lemma load_models_try_calls: "calls (snd (load_models_try env s)) = calls s"
  by (simp add: load_models_try_def st_error_def Let_def split: sum.splits option.splits)

lemma load_models_body_calls: "calls (snd (load_models_body env s)) = calls s"
  using load_models_try_calls [of env s]
  by (auto simp add: load_models_body_def st_error_def split: sum.splits prod.splits)

lemma load_models_calls: "calls (snd (load_models env s)) = calls s"
  using load_models_body_calls [of env s]
  by (auto simp add: load_models_def split: sum.splits prod.splits option.splits)

lemma load_models_body_raises:
  "fst (load_models_body env s) = Inl e \<Longrightarrow> \<not> isinstance_Exception e"
  by (auto simp add: load_models_body_def split: sum.splits prod.splits if_splits)

lemma load_models_raises:
  "fst (load_models env s) = Inl e \<Longrightarrow> \<not> isinstance_Exception e"
  using load_models_body_raises [of env s e]
  by (auto simp add: load_models_def split: sum.splits prod.splits option.splits)


lemma load_models_cached:
  "cache s = Some (r, []) \<Longrightarrow> load_models env s = (Inr r, s)"
  by (simp add: load_models_def)

lemma load_models_repeatedly_cached:
  "cache s = Some (r, []) \<Longrightarrow>
     load_models_repeatedly envs s = (replicate (length envs) (Inr r), s)"
  by (induction envs) (simp_all add: load_models_cached)

lemma load_models_try_success:
  assumes "read_api_key env = Inr key" "key \<noteq> []" "configure env key = None"
    "GenerativeModel env ''gemini-pro'' = None"
  shows "load_models_try env s =
     (Inr (Some \<lparr>model_name = ''gemini-pro'', object_id = constructed s\<rparr>),
      s\<lparr>api_key := Some key, constructed := Suc (constructed s)\<rparr>)"
  using assms by (simp add: load_models_try_def)

lemma load_models_success:
  assumes "cache s = None" "read_api_key env = Inr key" "key \<noteq> []" "configure env key = None"
    "GenerativeModel env ''gemini-pro'' = None"
  shows "load_models env s =
     (Inr (Some \<lparr>model_name = ''gemini-pro'', object_id = constructed s\<rparr>),
      s\<lparr>api_key := Some key, constructed := Suc (constructed s),
        cache := Some (Some \<lparr>model_name = ''gemini-pro'', object_id = constructed s\<rparr>, [])\<rparr>)"
  using assms by (simp add: load_models_def load_models_body_def load_models_try_success)





text \<open>
  The example inputs, evaluated.
\<close>

lemmas example_defs =
  load_models_def load_models_body_def load_models_try_def read_api_key_def getitem_def
  example_env_def secrets_with_key_def secrets_without_key_def fresh_process_def st_error_def

lemma example_load_models_ok:
  "load_models (example_env (Inr (secrets_with_key ''abc'')) answer) fresh_process =
     (Inr (Some \<lparr>model_name = ''gemini-pro'', object_id = 0\<rparr>),
      \<lparr>cache = Some (Some \<lparr>model_name = ''gemini-pro'', object_id = 0\<rparr>, []), page = [],
       api_key = Some ''abc'', constructed = 1, calls = []\<rparr>)"
  by (simp add: example_defs)

lemma example_load_models_no_key:
  "load_models (example_env (Inr secrets_without_key) answer) fresh_process =
     (Inr None,
      \<lparr>cache = Some (None, [StError ''API key not found in secrets.toml. Please check your secrets configuration.'']),
       page = [StError ''API key not found in secrets.toml. Please check your secrets configuration.''],
       api_key = None, constructed = 0, calls = []\<rparr>)"
  by (simp add: example_defs)

lemma example_invoke_raises:
  "invoke (example_env sec (Inl e)) model prompt config ss s =
     (Inl e,
      s\<lparr>calls := calls s @ [\<lparr>call_model = model, call_prompt = prompt,
                              call_config = config, call_safety = ss\<rparr>]\<rparr>)"
  by (simp add: invoke_def example_env_def)

lemma example_invoke_answers:
  "invoke (example_env sec (Inr (Response t))) model prompt config ss s =
     (t,
      s\<lparr>calls := calls s @ [\<lparr>call_model = model, call_prompt = prompt,
                              call_config = config, call_safety = ss\<rparr>]\<rparr>)"
  by (simp add: invoke_def example_env_def)




text \<open>
  C7. With the credential present and not empty, and the library accepting it, the first
  call of \<open>load_models\<close> in a process constructs one model object for \<^verbatim>\<open>gemini-pro\<close> and
  returns it. Every later call returns that same object and leaves the state of the
  process as it is: no second object is constructed, and the result does not depend on
  the secrets of the later call, which are not read.
\<close>

theorem load_models_singleton:
  assumes "cache s = None" and "read_api_key env = Inr key" and "key \<noteq> []"
    and "configure env key = None" and "GenerativeModel env ''gemini-pro'' = None"
  shows "fst (load_models env s) =
           Inr (Some \<lparr>model_name = ''gemini-pro'', object_id = constructed s\<rparr>)
         \<and> constructed (snd (load_models env s)) = Suc (constructed s)
         \<and> load_models env' (snd (load_models env s)) =
             (fst (load_models env s), snd (load_models env s))
         \<and> load_models_repeatedly envs (snd (load_models env s)) =
             (replicate (length envs) (fst (load_models env s)), snd (load_models env s))"
  using assms
  by (simp add: load_models_success load_models_cached load_models_repeatedly_cached)

theorem load_models_singleton_witness:
  "cache fresh_process = None
   \<and> read_api_key (example_env (Inr (secrets_with_key ''abc'')) (Inl (Exception ''quota''))) = Inr ''abc''
   \<and> fst (load_models (example_env (Inr (secrets_with_key ''abc'')) (Inl (Exception ''quota''))) fresh_process)
       = Inr (Some \<lparr>model_name = ''gemini-pro'', object_id = 0\<rparr>)
   \<and> load_models_repeatedly
        [example_env (Inr secrets_without_key) (Inl (Exception ''quota'')),
         example_env (Inl (Exception ''no file'')) (Inl (Exception ''quota''))]
        (snd (load_models (example_env (Inr (secrets_with_key ''abc'')) (Inl (Exception ''quota''))) fresh_process))
       = ([Inr (Some \<lparr>model_name = ''gemini-pro'', object_id = 0\<rparr>),
           Inr (Some \<lparr>model_name = ''gemini-pro'', object_id = 0\<rparr>)],
          snd (load_models (example_env (Inr (secrets_with_key ''abc'')) (Inl (Exception ''quota''))) fresh_process))"
proof -
  let ?env = "example_env (Inr (secrets_with_key ''abc'')) (Inl (Exception ''quota''))"
  let ?envs = "[example_env (Inr secrets_without_key) (Inl (Exception ''quota'')),
                example_env (Inl (Exception ''no file'')) (Inl (Exception ''quota''))]"
  have c: "cache fresh_process = None" by (simp add: fresh_process_def)
  have k: "read_api_key ?env = Inr ''abc''"
    by (simp add: read_api_key_def example_env_def secrets_with_key_def getitem_def)
  have n: "''abc'' \<noteq> []" by simp
  have g: "configure ?env ''abc'' = None" "GenerativeModel ?env ''gemini-pro'' = None"
    by (simp_all add: example_env_def)
  have z: "constructed fresh_process = 0" by (simp add: fresh_process_def)
  note t = load_models_singleton [OF c k n g, of ?env ?envs]
  from t z have a: "fst (load_models ?env fresh_process) =
      Inr (Some \<lparr>model_name = ''gemini-pro'', object_id = 0\<rparr>)"
    by simp
  from t have "load_models_repeatedly ?envs (snd (load_models ?env fresh_process)) =
      (replicate (length ?envs) (fst (load_models ?env fresh_process)),
       snd (load_models ?env fresh_process))"
    by blast
  then have r: "load_models_repeatedly ?envs (snd (load_models ?env fresh_process)) =
      ([Inr (Some \<lparr>model_name = ''gemini-pro'', object_id = 0\<rparr>),
        Inr (Some \<lparr>model_name = ''gemini-pro'', object_id = 0\<rparr>)],
       snd (load_models ?env fresh_process))"
    by (simp only: a replicate.simps list.size numeral_2_eq_2 One_nat_def add_Suc_right add_0_right)
  from c k a r show ?thesis by blast
qed

subsection \<open>Generating the comments\<close>

lemma invoke_calls:
  "snd (invoke env model prompt config ss s) =
     s\<lparr>calls := calls s @ [\<lparr>call_model = model, call_prompt = prompt,
                              call_config = config, call_safety = ss\<rparr>]\<rparr>"
  by (simp add: invoke_def Let_def split: sum.splits)

lemma get_gemini_response_success:
  assumes "load_models env s = (Inr (Some model), s1)"
    and "fst (invoke env model (generate_prompt code) config safety_settings s1) = Inr t"
  shows "fst (get_gemini_response env code config s) = Inr (Some t)"
  using assms
  by (cases "invoke env model (generate_prompt code) config safety_settings s1")
     (simp add: get_gemini_response_def get_gemini_response_try_def)

lemma get_gemini_response_None_iff:
  "(fst (get_gemini_response env code config s) = Inr None) =
     (\<exists>model s1 s2 e. load_models env s = (Inr (Some model), s1)
        \<and> invoke env model (generate_prompt code) config safety_settings s1 = (Inl e, s2)
        \<and> isinstance_Exception e)"
proof
  assume n: "fst (get_gemini_response env code config s) = Inr None"
  obtain r s1 where l: "load_models env s = (r, s1)"
    by (cases "load_models env s")
  show "\<exists>model s1 s2 e. load_models env s = (Inr (Some model), s1)
        \<and> invoke env model (generate_prompt code) config safety_settings s1 = (Inl e, s2)
        \<and> isinstance_Exception e"
  proof (cases r)
    case (Inl e)
    then have "\<not> isinstance_Exception e"
      using load_models_raises [of env s e] l by simp
    then show ?thesis
      using n l Inl by (simp add: get_gemini_response_def get_gemini_response_try_def)
  next
    case (Inr h)
    show ?thesis
    proof (cases h)
      case None
      then show ?thesis
        using n l Inr by (simp add: get_gemini_response_def get_gemini_response_try_def)
    next
      case (Some model)
      obtain a s2 where i: "invoke env model (generate_prompt code) config safety_settings s1 = (a, s2)"
        by (cases "invoke env model (generate_prompt code) config safety_settings s1")
      show ?thesis
      proof (cases a)
        case (Inl e)
        then have "isinstance_Exception e"
          using n l Inr Some i
          by (simp add: get_gemini_response_def get_gemini_response_try_def split: if_splits)
        then show ?thesis
          using l Inr Some i Inl by blast
      next
        case (Inr t)
        then show ?thesis
          using n l \<open>r = Inr h\<close> Some i
          by (simp add: get_gemini_response_def get_gemini_response_try_def)
      qed
    qed
  qed
next
  assume "\<exists>model s1 s2 e. load_models env s = (Inr (Some model), s1)
        \<and> invoke env model (generate_prompt code) config safety_settings s1 = (Inl e, s2)
        \<and> isinstance_Exception e"
  then show "fst (get_gemini_response env code config s) = Inr None"
    by (auto simp add: get_gemini_response_def get_gemini_response_try_def)
qed

lemma get_gemini_response_calls:
  "calls (snd (get_gemini_response env code config s)) = calls s
   \<or> (\<exists>model. calls (snd (get_gemini_response env code config s)) =
         calls s @ [\<lparr>call_model = model, call_prompt = generate_prompt code,
                      call_config = config, call_safety = safety_settings\<rparr>])"
proof -
  obtain r s1 where l: "load_models env s = (r, s1)"
    by (cases "load_models env s")
  have c: "calls s1 = calls s"
    using load_models_calls [of env s] l by simp
  show ?thesis
  proof (cases r)
    case (Inl e)
    then show ?thesis
      using l c by (simp add: get_gemini_response_def get_gemini_response_try_def st_error_def)
  next
    case (Inr h)
    show ?thesis
    proof (cases h)
      case None
      then show ?thesis
        using l c Inr by (simp add: get_gemini_response_def get_gemini_response_try_def)
    next
      case (Some model)
      obtain a s2 where i: "invoke env model (generate_prompt code) config safety_settings s1 = (a, s2)"
        by (cases "invoke env model (generate_prompt code) config safety_settings s1")
      then have s2: "s2 = s1\<lparr>calls := calls s1 @ [\<lparr>call_model = model,
            call_prompt = generate_prompt code, call_config = config,
            call_safety = safety_settings\<rparr>]\<rparr>"
        using invoke_calls [of env model "generate_prompt code" config safety_settings s1] by simp
      show ?thesis
        using l c Inr Some i s2
        by (cases a) (simp_all add: get_gemini_response_def get_gemini_response_try_def st_error_def)
    qed
  qed
qed

lemma get_gemini_response_raises:
  "fst (get_gemini_response env code config s) = Inl e \<Longrightarrow> \<not> isinstance_Exception e"
  by (auto simp add: get_gemini_response_def Let_def split: prod.splits sum.splits if_splits)

text \<open>
  C3. When the model is loaded and its invocation raises an error \<open>e\<close> (an instance of
  \<^verbatim>\<open>Exception\<close>), for any code and any configuration, \<open>get_gemini_response\<close> returns
  \<^verbatim>\<open>None\<close>, its failure result, and displays "An error occurred: " followed by the text
  of \<open>e\<close>; the error does not leave the function. No instance of \<^verbatim>\<open>Exception\<close> ever
  leaves \<open>get_gemini_response\<close>, whatever the inputs.
\<close>

theorem get_gemini_response_invocation_error:
  assumes "load_models env s = (Inr (Some model), s1)"
    and "invoke env model (generate_prompt code) config safety_settings s1 = (Inl e, s2)"
    and "isinstance_Exception e"
  shows "get_gemini_response env code config s =
           (Inr None, st_error (''An error occurred: '' @ str e) s2)
         \<and> page (snd (get_gemini_response env code config s)) =
             page s1 @ [StError (''An error occurred: '' @ str e)]
         \<and> (isinstance_Exception e' \<longrightarrow>
               fst (get_gemini_response env' code' config' s') \<noteq> Inl e')"
proof -
  have "s2 = snd (invoke env model (generate_prompt code) config safety_settings s1)"
    using assms(2) by simp
  then have "page s2 = page s1"
    by (simp add: invoke_calls)
  then have "get_gemini_response env code config s =
           (Inr None, st_error (''An error occurred: '' @ str e) s2)
         \<and> page (snd (get_gemini_response env code config s)) =
             page s1 @ [StError (''An error occurred: '' @ str e)]"
    using assms by (simp add: get_gemini_response_def get_gemini_response_try_def st_error_def)
  then show ?thesis
    using get_gemini_response_raises [of env' code' config' s' e'] by blast
qed

theorem get_gemini_response_invocation_error_witness:
  "isinstance_Exception (Exception ''quota exceeded'')
   \<and> get_gemini_response
        (example_env (Inr (secrets_with_key ''abc'')) (Inl (Exception ''quota exceeded'')))
        ''x = 1'' (generative_config ''Low'') fresh_process =
       (Inr None,
        \<lparr>cache = Some (Some \<lparr>model_name = ''gemini-pro'', object_id = 0\<rparr>, []),
         page = [StError ''An error occurred: quota exceeded''],
         api_key = Some ''abc'', constructed = 1,
         calls = [\<lparr>call_model = \<lparr>model_name = ''gemini-pro'', object_id = 0\<rparr>,
                   call_prompt = generate_prompt ''x = 1'',
                   call_config = generative_config ''Low'',
                   call_safety = safety_settings\<rparr>]\<rparr>)"
  using get_gemini_response_invocation_error
    [OF example_load_models_ok example_invoke_raises, of "Exception ''quota exceeded''"
       "''x = 1''" "generative_config ''Low''"]
  by (simp add: st_error_def)

text \<open>
  C4. When \<open>load_models\<close> gives no model, \<open>get_gemini_response\<close> sends no request
  to the hosted model and returns the fixed text "Model not loaded properly. Check your
  API key and configuration." as an ordinary string, the way it returns the model's
  answer; it neither returns \<^verbatim>\<open>None\<close> nor displays the text as an error.
\<close>

theorem get_gemini_response_model_not_loaded:
  assumes "load_models env s = (Inr None, s1)"
  shows "get_gemini_response env code config s =
           (Inr (Some ''Model not loaded properly. Check your API key and configuration.''), s1)
         \<and> calls (snd (get_gemini_response env code config s)) = calls s"
proof -
  have "calls s1 = calls s"
    using load_models_calls [of env s] assms by simp
  then show ?thesis
    using assms by (simp add: get_gemini_response_def get_gemini_response_try_def)
qed

theorem get_gemini_response_model_not_loaded_witness:
  "load_models (example_env (Inr secrets_without_key) (Inr (Response (Inr ''# sets x'')))) fresh_process =
     (Inr None,
      \<lparr>cache = Some (None, [StError ''API key not found in secrets.toml. Please check your secrets configuration.'']),
       page = [StError ''API key not found in secrets.toml. Please check your secrets configuration.''],
       api_key = None, constructed = 0, calls = []\<rparr>)
   \<and> get_gemini_response
        (example_env (Inr secrets_without_key) (Inr (Response (Inr ''# sets x''))))
        ''x = 1'' (generative_config ''Low'') fresh_process =
       (Inr (Some ''Model not loaded properly. Check your API key and configuration.''),
        \<lparr>cache = Some (None, [StError ''API key not found in secrets.toml. Please check your secrets configuration.'']),
         page = [StError ''API key not found in secrets.toml. Please check your secrets configuration.''],
         api_key = None, constructed = 0, calls = []\<rparr>)"
  using get_gemini_response_model_not_loaded
    [OF example_load_models_no_key, of "Inr (Response (Inr ''# sets x''))" "''x = 1''"
       "generative_config ''Low''"]
    example_load_models_no_key [of "Inr (Response (Inr ''# sets x''))"]
  by simp

text \<open>
  C4 as first stated, with a failure result, does not hold. The failure result of this
  program is \<^verbatim>\<open>None\<close> with an error displayed, which is
  what \<^verbatim>\<open>main\<close> tests (\<^verbatim>\<open>if response is not None\<close>). With no key in the secrets the
  model is not loaded, yet the result is not \<^verbatim>\<open>None\<close> and the fixed text is not among the
  errors displayed.
\<close>

theorem get_gemini_response_failure_marker_counterexample:
  "fst (load_models (example_env (Inr secrets_without_key) (Inr (Response (Inr ''# sets x''))))
          fresh_process) = Inr None
   \<and> fst (get_gemini_response
          (example_env (Inr secrets_without_key) (Inr (Response (Inr ''# sets x''))))
          ''x = 1'' (generative_config ''Low'') fresh_process) \<noteq> Inr None
   \<and> StError ''Model not loaded properly. Check your API key and configuration.''
       \<notin> set (page (snd (get_gemini_response
          (example_env (Inr secrets_without_key) (Inr (Response (Inr ''# sets x''))))
          ''x = 1'' (generative_config ''Low'') fresh_process)))"
  by (simp add: get_gemini_response_def get_gemini_response_try_def example_load_models_no_key)

text \<open>
  C6. Every request \<open>get_gemini_response\<close> sends to the hosted model, for any code and
  any configuration, carries the same safety settings: exactly the four categories
  harassment, hate speech, sexually explicit and dangerous content, each set to
  \<^verbatim>\<open>BLOCK_NONE\<close>.
\<close>

theorem get_gemini_response_safety_policy:
  "(\<exists>new. calls (snd (get_gemini_response env code config s)) = calls s @ new
       \<and> (\<forall>c \<in> set new. call_safety c = safety_settings))
   \<and> map fst safety_settings =
       [HARM_CATEGORY_HARASSMENT, HARM_CATEGORY_HATE_SPEECH,
        HARM_CATEGORY_SEXUALLY_EXPLICIT, HARM_CATEGORY_DANGEROUS_CONTENT]
   \<and> dom (map_of safety_settings) =
       {HARM_CATEGORY_HARASSMENT, HARM_CATEGORY_HATE_SPEECH,
        HARM_CATEGORY_SEXUALLY_EXPLICIT, HARM_CATEGORY_DANGEROUS_CONTENT}
   \<and> (\<forall>category \<in> dom (map_of safety_settings).
         map_of safety_settings category = Some BLOCK_NONE)"
proof -
  have "\<exists>new. calls (snd (get_gemini_response env code config s)) = calls s @ new
       \<and> (\<forall>c \<in> set new. call_safety c = safety_settings)"
    using get_gemini_response_calls [of env code config s] by auto
  moreover have "map fst safety_settings =
       [HARM_CATEGORY_HARASSMENT, HARM_CATEGORY_HATE_SPEECH,
        HARM_CATEGORY_SEXUALLY_EXPLICIT, HARM_CATEGORY_DANGEROUS_CONTENT]"
    by (simp add: safety_settings_def)
  moreover have "dom (map_of safety_settings) =
       {HARM_CATEGORY_HARASSMENT, HARM_CATEGORY_HATE_SPEECH,
        HARM_CATEGORY_SEXUALLY_EXPLICIT, HARM_CATEGORY_DANGEROUS_CONTENT}"
    by (auto simp add: safety_settings_def dom_def split: if_splits)
  moreover have "\<forall>category \<in> dom (map_of safety_settings).
         map_of safety_settings category = Some BLOCK_NONE"
    by (auto simp add: safety_settings_def dom_def split: if_splits)
  ultimately show ?thesis by blast
qed

theorem get_gemini_response_safety_policy_witness:
  "calls (snd (get_gemini_response
        (example_env (Inr (secrets_with_key ''abc'')) (Inr (Response (Inr ''# sets x''))))
        ''x = 1'' (generative_config ''High'') fresh_process)) =
     [\<lparr>call_model = \<lparr>model_name = ''gemini-pro'', object_id = 0\<rparr>,
       call_prompt = generate_prompt ''x = 1'',
       call_config = generative_config ''High'',
       call_safety = safety_settings\<rparr>]
   \<and> map_of safety_settings HARM_CATEGORY_HARASSMENT = Some BLOCK_NONE
   \<and> map_of safety_settings HARM_CATEGORY_HATE_SPEECH = Some BLOCK_NONE
   \<and> map_of safety_settings HARM_CATEGORY_SEXUALLY_EXPLICIT = Some BLOCK_NONE
   \<and> map_of safety_settings HARM_CATEGORY_DANGEROUS_CONTENT = Some BLOCK_NONE
   \<and> map_of safety_settings HARM_CATEGORY_UNSPECIFIED = None"
proof -
  let ?r = "get_gemini_response
        (example_env (Inr (secrets_with_key ''abc'')) (Inr (Response (Inr ''# sets x''))))
        ''x = 1'' (generative_config ''High'') fresh_process"
  note t = get_gemini_response_safety_policy
    [of "example_env (Inr (secrets_with_key ''abc'')) (Inr (Response (Inr ''# sets x'')))"
        "''x = 1''" "generative_config ''High''" fresh_process]
  have e: "calls (snd ?r) =
     [\<lparr>call_model = \<lparr>model_name = ''gemini-pro'', object_id = 0\<rparr>,
       call_prompt = generate_prompt ''x = 1'',
       call_config = generative_config ''High'',
       call_safety = safety_settings\<rparr>]"
    by (simp add: get_gemini_response_def get_gemini_response_try_def example_load_models_ok
        example_invoke_answers)
  from t have d: "dom (map_of safety_settings) =
       {HARM_CATEGORY_HARASSMENT, HARM_CATEGORY_HATE_SPEECH,
        HARM_CATEGORY_SEXUALLY_EXPLICIT, HARM_CATEGORY_DANGEROUS_CONTENT}"
    and b: "\<forall>category \<in> dom (map_of safety_settings).
         map_of safety_settings category = Some BLOCK_NONE"
    by blast+
  have "HARM_CATEGORY_UNSPECIFIED \<notin> dom (map_of safety_settings)"
    unfolding d by simp
  then have u: "map_of safety_settings HARM_CATEGORY_UNSPECIFIED = None"
    by blast
  from b d e u show ?thesis by simp
qed

text \<open>
  C10. For any code and configuration, \<open>get_gemini_response\<close> returns \<^verbatim>\<open>None\<close> exactly
  when the model was loaded and its invocation raised an exception (an instance of
  \<^verbatim>\<open>Exception\<close>). When the model is not loaded it returns the fixed text, and when the
  invocation succeeds it returns the model's text, both as a string through the same
  return value: a run without a model and a run whose model answers with the fixed text
  return the same value.
\<close>

theorem get_gemini_response_return_channel:
  "(fst (get_gemini_response env code config s) = Inr None) =
     (\<exists>model s1 s2 e. load_models env s = (Inr (Some model), s1)
        \<and> invoke env model (generate_prompt code) config safety_settings s1 = (Inl e, s2)
        \<and> isinstance_Exception e)
   \<and> (load_models env s = (Inr None, s1) \<longrightarrow>
        fst (get_gemini_response env code config s) =
          Inr (Some ''Model not loaded properly. Check your API key and configuration.''))
   \<and> (load_models env s = (Inr (Some model), s1)
        \<and> fst (invoke env model (generate_prompt code) config safety_settings s1) = Inr t \<longrightarrow>
        fst (get_gemini_response env code config s) = Inr (Some t))
   \<and> (load_models env s = (Inr None, s1)
        \<and> load_models env' s' = (Inr (Some model'), s1')
        \<and> fst (invoke env' model' (generate_prompt code') config' safety_settings s1') =
            Inr ''Model not loaded properly. Check your API key and configuration.'' \<longrightarrow>
        fst (get_gemini_response env code config s) =
          fst (get_gemini_response env' code' config' s'))"
proof -
  have not_loaded: "fst (get_gemini_response env code config s) =
      Inr (Some ''Model not loaded properly. Check your API key and configuration.'')"
    if "load_models env s = (Inr None, s1)"
    using that by (simp add: get_gemini_response_def get_gemini_response_try_def)
  show ?thesis
    using get_gemini_response_None_iff [of env code config s]
      get_gemini_response_success [of env s model s1 code config t]
      get_gemini_response_success [of env' s' model' s1' code' config'
        "''Model not loaded properly. Check your API key and configuration.''"]
      not_loaded
    by simp
qed

theorem get_gemini_response_return_channel_witness:
  "fst (get_gemini_response
        (example_env (Inr (secrets_with_key ''abc'')) (Inl (Exception ''quota exceeded'')))
        ''x = 1'' (generative_config ''Low'') fresh_process) = Inr None
   \<and> fst (get_gemini_response
        (example_env (Inr secrets_without_key) (Inl (Exception ''quota exceeded'')))
        ''x = 1'' (generative_config ''Low'') fresh_process) =
       Inr (Some ''Model not loaded properly. Check your API key and configuration.'')
   \<and> fst (get_gemini_response
        (example_env (Inr (secrets_with_key ''abc''))
           (Inr (Response (Inr ''Model not loaded properly. Check your API key and configuration.''))))
        ''x = 1'' (generative_config ''Low'') fresh_process) =
       Inr (Some ''Model not loaded properly. Check your API key and configuration.'')
   \<and> fst (get_gemini_response
        (example_env (Inr secrets_without_key) (Inl (Exception ''quota exceeded'')))
        ''x = 1'' (generative_config ''Low'') fresh_process) =
     fst (get_gemini_response
        (example_env (Inr (secrets_with_key ''abc''))
           (Inr (Response (Inr ''Model not loaded properly. Check your API key and configuration.''))))
        ''x = 1'' (generative_config ''Low'') fresh_process)"
proof -
  let ?q = "Inl (Exception ''quota exceeded'')"
  let ?m = "Inr (Response (Inr ''Model not loaded properly. Check your API key and configuration.''))"
  let ?h = "\<lparr>model_name = ''gemini-pro'', object_id = 0\<rparr>"
  let ?s1 = "\<lparr>cache = Some (Some ?h, []), page = [],
       api_key = Some ''abc'', constructed = 1, calls = []\<rparr>"
  have a: "\<exists>model s1 s2 e.
      load_models (example_env (Inr (secrets_with_key ''abc'')) ?q) fresh_process
        = (Inr (Some model), s1)
      \<and> invoke (example_env (Inr (secrets_with_key ''abc'')) ?q) model (generate_prompt ''x = 1'')
          (generative_config ''Low'') safety_settings s1 = (Inl e, s2)
      \<and> isinstance_Exception e"
    using example_load_models_ok [of ?q]
      example_invoke_raises [of "Inr (secrets_with_key ''abc'')" "Exception ''quota exceeded''" ?h
        "generate_prompt ''x = 1''" "generative_config ''Low''" safety_settings ?s1]
      isinstance_Exception.simps(2) [of "''quota exceeded''"]
    by blast
  have b: "fst (invoke (example_env (Inr (secrets_with_key ''abc'')) ?m) ?h (generate_prompt ''x = 1'')
          (generative_config ''Low'') safety_settings ?s1) =
       Inr ''Model not loaded properly. Check your API key and configuration.''"
    by (simp add: example_invoke_answers)
  show ?thesis
    using get_gemini_response_return_channel
        [where env = "example_env (Inr (secrets_with_key ''abc'')) ?q" and code = "''x = 1''"
           and config = "generative_config ''Low''" and s = fresh_process] a
      get_gemini_response_return_channel
        [where env = "example_env (Inr secrets_without_key) ?q" and code = "''x = 1''"
           and config = "generative_config ''Low''" and s = fresh_process,
         THEN conjunct2, THEN conjunct1, rule_format, OF example_load_models_no_key]
      get_gemini_response_return_channel
        [where env = "example_env (Inr (secrets_with_key ''abc'')) ?m" and code = "''x = 1''"
           and config = "generative_config ''Low''" and s = fresh_process
           and model = ?h and ?s1.0 = ?s1,
         THEN conjunct2, THEN conjunct2, THEN conjunct1, rule_format,
         OF conjI [OF example_load_models_ok b]]
    by simp
qed

subsection \<open>The prompt, from call to call\<close>

lemma get_gemini_response_prompts:
  "\<exists>new. calls (snd (get_gemini_response env code config s)) = calls s @ new
     \<and> (\<forall>c \<in> set new. call_prompt c = generate_prompt code)"
  using get_gemini_response_calls [of env code config s] by auto

text \<open>
  C8. \<open>generate_prompt\<close> is defined on every string and its result is fixed by that string
  alone. On the empty string it returns the whole instruction block, the text below; on
  any string it returns that same block with the string inserted after its first 970
  characters. Two calls of \<open>get_gemini_response\<close> on the same code, in any two states of the
  process, any two environments and with any two configurations, pass the same prompt to
  the model whenever they reach it: nothing but the code enters the prompt.
\<close>

theorem generate_prompt_pure_total:
  "generate_prompt [] =
     [CHR 0x0A] @
     ''    You are an AI code comment generator for multiple languages. Validate that provided code snippets are valid code snippets and no malicious code. If not valid, ask for a valid snippet. Identify language if not provided. Use appropriate comment syntax. Break code into logical sections, comment each section's functionality. '' @ [CHR 0x0A] @
     ''    For functions/methods, comment:'' @ [CHR 0x0A] @
     [CHR 0x0A] @
     ''    - Purpose'' @ [CHR 0x0A] @
     ''    - Input parameters'' @ [CHR 0x0A] @
     ''    - Return values'' @ [CHR 0x0A] @
     ''    - Potential effects/exceptions'' @ [CHR 0x0A] @
     [CHR 0x0A] @
     ''    Briefly explain the algorithms, data structures, and patterns used. Avoid redundancy but provide enough context for unfamiliar readers. Maintain a professional, helpful tone. Address issues/clarifications respectfully.'' @ [CHR 0x0A] @
     [CHR 0x0A] @
     ''    You should not generate any new code yourself, but rather understand and comment on the provided code snippet.'' @ [CHR 0x0A] @
     [CHR 0x0A] @
     ''    Elevate documentation practices, promote collaboration, and enhance developer experience.'' @ [CHR 0x0A] @
     ''    Here is the code snippet for which code comments need to be generated: '' @ [CHR 0x0A, CHR 0x0A] @
     [CHR 0x0A] @ ''    ''
   \<and> generate_prompt code =
       take 970 (generate_prompt []) @ code @ drop 970 (generate_prompt [])
   \<and> (\<exists>new new'.
         calls (snd (get_gemini_response env code config s)) = calls s @ new
         \<and> calls (snd (get_gemini_response env' code config' s')) = calls s' @ new'
         \<and> (\<forall>c \<in> set new. \<forall>c' \<in> set new'.
               call_prompt c = generate_prompt code \<and> call_prompt c' = call_prompt c))"
proof -
  have block: "generate_prompt [] =
     [CHR 0x0A] @
     ''    You are an AI code comment generator for multiple languages. Validate that provided code snippets are valid code snippets and no malicious code. If not valid, ask for a valid snippet. Identify language if not provided. Use appropriate comment syntax. Break code into logical sections, comment each section's functionality. '' @ [CHR 0x0A] @
     ''    For functions/methods, comment:'' @ [CHR 0x0A] @
     [CHR 0x0A] @
     ''    - Purpose'' @ [CHR 0x0A] @
     ''    - Input parameters'' @ [CHR 0x0A] @
     ''    - Return values'' @ [CHR 0x0A] @
     ''    - Potential effects/exceptions'' @ [CHR 0x0A] @
     [CHR 0x0A] @
     ''    Briefly explain the algorithms, data structures, and patterns used. Avoid redundancy but provide enough context for unfamiliar readers. Maintain a professional, helpful tone. Address issues/clarifications respectfully.'' @ [CHR 0x0A] @
     [CHR 0x0A] @
     ''    You should not generate any new code yourself, but rather understand and comment on the provided code snippet.'' @ [CHR 0x0A] @
     [CHR 0x0A] @
     ''    Elevate documentation practices, promote collaboration, and enhance developer experience.'' @ [CHR 0x0A] @
     ''    Here is the code snippet for which code comments need to be generated: '' @ [CHR 0x0A, CHR 0x0A] @
     [CHR 0x0A] @ ''    ''"
    by (simp add: generate_prompt_def newline_def)
  have splice: "generate_prompt code =
       take 970 (generate_prompt []) @ code @ drop 970 (generate_prompt [])"
    by (simp add: generate_prompt_def newline_def)
  obtain new where n: "calls (snd (get_gemini_response env code config s)) = calls s @ new"
      "\<forall>c \<in> set new. call_prompt c = generate_prompt code"
    using get_gemini_response_prompts [of env code config s] by blast
  obtain new' where n': "calls (snd (get_gemini_response env' code config' s')) = calls s' @ new'"
      "\<forall>c \<in> set new'. call_prompt c = generate_prompt code"
    using get_gemini_response_prompts [of env' code config' s'] by blast
  have "\<exists>new new'.
         calls (snd (get_gemini_response env code config s)) = calls s @ new
         \<and> calls (snd (get_gemini_response env' code config' s')) = calls s' @ new'
         \<and> (\<forall>c \<in> set new. \<forall>c' \<in> set new'.
               call_prompt c = generate_prompt code \<and> call_prompt c' = call_prompt c)"
    using n n' by (intro exI [of _ new] exI [of _ new']) simp
  with block splice show ?thesis
    by (intro conjI)
qed

theorem generate_prompt_pure_total_witness:
  "calls (snd (get_gemini_response
        (example_env (Inr (secrets_with_key ''abc'')) (Inr (Response (Inr ''# sets x''))))
        ''x = 1'' (generative_config ''Low'') fresh_process)) =
     [\<lparr>call_model = \<lparr>model_name = ''gemini-pro'', object_id = 0\<rparr>,
       call_prompt = generate_prompt ''x = 1'',
       call_config = generative_config ''Low'',
       call_safety = safety_settings\<rparr>]
   \<and> calls (snd (get_gemini_response
        (example_env (Inl (Exception ''no secrets file'')) (Inl (Exception ''quota exceeded'')))
        ''x = 1'' (generative_config ''High'')
        \<lparr>cache = Some (Some \<lparr>model_name = ''gemini-pro'', object_id = 7\<rparr>, []),
         page = [StError ''earlier''], api_key = Some ''xyz'', constructed = 8, calls = []\<rparr>)) =
     [\<lparr>call_model = \<lparr>model_name = ''gemini-pro'', object_id = 7\<rparr>,
       call_prompt = generate_prompt ''x = 1'',
       call_config = generative_config ''High'',
       call_safety = safety_settings\<rparr>]
   \<and> call_prompt (hd (calls (snd (get_gemini_response
        (example_env (Inl (Exception ''no secrets file'')) (Inl (Exception ''quota exceeded'')))
        ''x = 1'' (generative_config ''High'')
        \<lparr>cache = Some (Some \<lparr>model_name = ''gemini-pro'', object_id = 7\<rparr>, []),
         page = [StError ''earlier''], api_key = Some ''xyz'', constructed = 8, calls = []\<rparr>)))) =
     call_prompt (hd (calls (snd (get_gemini_response
        (example_env (Inr (secrets_with_key ''abc'')) (Inr (Response (Inr ''# sets x''))))
        ''x = 1'' (generative_config ''Low'') fresh_process))))
   \<and> generate_prompt ''x = 1'' =
       take 970 (generate_prompt []) @ ''x = 1'' @ drop 970 (generate_prompt [])"
proof -
  let ?e1 = "example_env (Inr (secrets_with_key ''abc'')) (Inr (Response (Inr ''# sets x'')))"
  let ?e2 = "example_env (Inl (Exception ''no secrets file'')) (Inl (Exception ''quota exceeded''))"
  let ?s2 = "\<lparr>cache = Some (Some \<lparr>model_name = ''gemini-pro'', object_id = 7\<rparr>, []),
         page = [StError ''earlier''], api_key = Some ''xyz'', constructed = 8, calls = []\<rparr>"
  have a: "calls (snd (get_gemini_response ?e1 ''x = 1'' (generative_config ''Low'') fresh_process)) =
     [\<lparr>call_model = \<lparr>model_name = ''gemini-pro'', object_id = 0\<rparr>,
       call_prompt = generate_prompt ''x = 1'',
       call_config = generative_config ''Low'',
       call_safety = safety_settings\<rparr>]"
    by (simp add: get_gemini_response_def get_gemini_response_try_def example_load_models_ok
        example_invoke_answers)
  have b: "calls (snd (get_gemini_response ?e2 ''x = 1'' (generative_config ''High'') ?s2)) =
     [\<lparr>call_model = \<lparr>model_name = ''gemini-pro'', object_id = 7\<rparr>,
       call_prompt = generate_prompt ''x = 1'',
       call_config = generative_config ''High'',
       call_safety = safety_settings\<rparr>]"
    by (simp add: get_gemini_response_def get_gemini_response_try_def load_models_def
        example_invoke_raises st_error_def)
  have c: "generate_prompt ''x = 1'' =
       take 970 (generate_prompt []) @ ''x = 1'' @ drop 970 (generate_prompt [])"
    by (rule generate_prompt_pure_total [where code = "''x = 1''", THEN conjunct2, THEN conjunct1])
  obtain new new' where
    n: "calls (snd (get_gemini_response ?e1 ''x = 1'' (generative_config ''Low'') fresh_process)) =
          calls fresh_process @ new"
    and n': "calls (snd (get_gemini_response ?e2 ''x = 1'' (generative_config ''High'') ?s2)) =
          calls ?s2 @ new'"
    and q: "\<forall>c \<in> set new. \<forall>c' \<in> set new'.
          call_prompt c = generate_prompt ''x = 1'' \<and> call_prompt c' = call_prompt c"
    using generate_prompt_pure_total
      [where code = "''x = 1''" and env = ?e1 and config = "generative_config ''Low''"
         and s = fresh_process and env' = ?e2 and config' = "generative_config ''High''"
         and s' = ?s2, THEN conjunct2, THEN conjunct2]
    by blast
  let ?c1 = "\<lparr>call_model = \<lparr>model_name = ''gemini-pro'', object_id = 0\<rparr>,
       call_prompt = generate_prompt ''x = 1'',
       call_config = generative_config ''Low'',
       call_safety = safety_settings\<rparr>"
  let ?c2 = "\<lparr>call_model = \<lparr>model_name = ''gemini-pro'', object_id = 7\<rparr>,
       call_prompt = generate_prompt ''x = 1'',
       call_config = generative_config ''High'',
       call_safety = safety_settings\<rparr>"
  have "calls fresh_process = []"
    by (simp add: fresh_process_def)
  with n a have "[?c1] = [] @ new"
    by (simp only:)
  then have m: "new = [?c1]"
    by (simp only: append_Nil)
  from n' b have "[?c2] = calls ?s2 @ new'"
    by (simp only:)
  then have m': "new' = [?c2]"
    by simp
  have d': "call_prompt ?c2 = call_prompt ?c1"
    using q unfolding m m' by simp
  have d: "call_prompt (hd (calls (snd (get_gemini_response ?e2 ''x = 1''
        (generative_config ''High'') ?s2)))) =
      call_prompt (hd (calls (snd (get_gemini_response ?e1 ''x = 1''
        (generative_config ''Low'') fresh_process))))"
    using d' unfolding a b list.sel .
  from a b c d show ?thesis by (intro conjI)
qed

end
